theory Spec2Isabelle
  imports Main "HOL-Library.Word"
begin

unbundle bit_operations_syntax

section \<open>Library functions the client calls\<close>

text \<open>
  The package \<^verbatim>\<open>coinbase\<close> signs every request with Go's \<^verbatim>\<open>crypto/hmac\<close>,
  \<^verbatim>\<open>crypto/sha256\<close> and \<^verbatim>\<open>encoding/hex\<close>. A Go \<^verbatim>\<open>string\<close> and a \<^verbatim>\<open>[]byte\<close> are byte
  sequences; both are \<^typ>\<open>string\<close> here, and the hash works on 8-bit words.
\<close>

type_synonym byte = "8 word"

definition bytes_of :: "string \<Rightarrow> byte list" where
  "bytes_of s = map of_char s"

subsection \<open>SHA-256 (FIPS 180-4), as \<^verbatim>\<open>crypto/sha256\<close> computes it\<close>

definition rotr :: "nat \<Rightarrow> 32 word \<Rightarrow> 32 word" where
  "rotr n x = (drop_bit n x) OR (push_bit (32 - n) x)"

definition Ch :: "32 word \<Rightarrow> 32 word \<Rightarrow> 32 word \<Rightarrow> 32 word" where
  "Ch x y z = (x AND y) XOR (NOT x AND z)"

definition Maj :: "32 word \<Rightarrow> 32 word \<Rightarrow> 32 word \<Rightarrow> 32 word" where
  "Maj x y z = (x AND y) XOR (x AND z) XOR (y AND z)"

definition bsig0 :: "32 word \<Rightarrow> 32 word" where
  "bsig0 x = rotr 2 x XOR rotr 13 x XOR rotr 22 x"

definition bsig1 :: "32 word \<Rightarrow> 32 word" where
  "bsig1 x = rotr 6 x XOR rotr 11 x XOR rotr 25 x"

definition ssig0 :: "32 word \<Rightarrow> 32 word" where
  "ssig0 x = rotr 7 x XOR rotr 18 x XOR drop_bit 3 x"

definition ssig1 :: "32 word \<Rightarrow> 32 word" where
  "ssig1 x = rotr 17 x XOR rotr 19 x XOR drop_bit 10 x"

text \<open>
  The round constants of FIPS 180-4, Section 4.2.2 (the first 32 bits of the fractional
  parts of the cube roots of the first 64 primes), written in decimal.
\<close>

definition K256 :: "32 word list" where
  "K256 = [
  1116352408, 1899447441, 3049323471, 3921009573, 961987163, 1508970993,
  2453635748, 2870763221, 3624381080, 310598401, 607225278, 1426881987,
  1925078388, 2162078206, 2614888103, 3248222580, 3835390401, 4022224774,
  264347078, 604807628, 770255983, 1249150122, 1555081692, 1996064986,
  2554220882, 2821834349, 2952996808, 3210313671, 3336571891, 3584528711,
  113926993, 338241895, 666307205, 773529912, 1294757372, 1396182291,
  1695183700, 1986661051, 2177026350, 2456956037, 2730485921, 2820302411,
  3259730800, 3345764771, 3516065817, 3600352804, 4094571909, 275423344,
  430227734, 506948616, 659060556, 883997877, 958139571, 1322822218,
  1537002063, 1747873779, 1955562222, 2024104815, 2227730452, 2361852424,
  2428436474, 2756734187, 3204031479, 3329325298]"

definition H256 :: "32 word list" where
  "H256 = [0x6a09e667, 0xbb67ae85, 0x3c6ef372, 0xa54ff53a,
           0x510e527f, 0x9b05688c, 0x1f83d9ab, 0x5be0cd19]"

text \<open>Big-endian packing of bytes into 32-bit words, and back.\<close>

fun be_words :: "byte list \<Rightarrow> 32 word list" where
  "be_words (a # b # c # d # rest) =
     (push_bit 24 (ucast a) OR push_bit 16 (ucast b) OR push_bit 8 (ucast c) OR ucast d)
       # be_words rest"
| "be_words _ = []"

definition be_bytes :: "32 word \<Rightarrow> byte list" where
  "be_bytes w = [ucast (drop_bit 24 w), ucast (drop_bit 16 w), ucast (drop_bit 8 w), ucast w]"

definition be_length :: "64 word \<Rightarrow> byte list" where
  "be_length n = map (\<lambda>i. ucast (drop_bit (8 * (7 - i)) n)) [0..<8]"

text \<open>Padding: the byte 0x80, zeros up to 56 modulo 64, then the bit length on 8 bytes.\<close>

definition sha_pad :: "byte list \<Rightarrow> byte list" where
  "sha_pad m = m @ [0x80] @ replicate ((119 - length m mod 64) mod 64) 0
                 @ be_length (8 * of_nat (length m))"

fun schedule :: "nat \<Rightarrow> 32 word list \<Rightarrow> 32 word list" where
  "schedule 0 w = w"
| "schedule (Suc n) w =
     schedule n (w @ [ssig1 (w ! (length w - 2)) + w ! (length w - 7)
                      + ssig0 (w ! (length w - 15)) + w ! (length w - 16)])"

fun round256 :: "32 word list \<Rightarrow> 32 word \<times> 32 word \<Rightarrow> 32 word list" where
  "round256 [a, b, c, d, e, f, g, h] (k, w) =
     (let t1 = h + bsig1 e + Ch e f g + k + w;
          t2 = bsig0 a + Maj a b c
      in [t1 + t2, a, b, c, d + t1, e, f, g])"
| "round256 v _ = v"

definition compress :: "32 word list \<Rightarrow> byte list \<Rightarrow> 32 word list" where
  "compress hs blk =
     map2 (+) hs (foldl round256 hs (zip K256 (schedule 48 (be_words blk))))"

fun blocks :: "nat \<Rightarrow> byte list \<Rightarrow> byte list list" where
  "blocks 0 m = []"
| "blocks (Suc n) m = take 64 m # blocks n (drop 64 m)"

definition sha256 :: "byte list \<Rightarrow> byte list" where
  "sha256 m = (let p = sha_pad m
               in concat (map be_bytes (foldl compress H256 (blocks (length p div 64) p))))"

subsection \<open>HMAC, as \<^verbatim>\<open>crypto/hmac\<close> computes it\<close>

text \<open>
  \<^verbatim>\<open>hmac.New(sha256.New, key)\<close> hashes a key longer than the block size (64 bytes), pads
  it with zeros to the block size, and starts the inner hash with the key XOR 0x36.
  \<^verbatim>\<open>Write\<close> feeds the inner hash; \<^verbatim>\<open>Sum(nil)\<close> hashes the key XOR 0x5c followed by the
  inner digest. A running hash is the bytes written to it so far.
\<close>

record hmac =
  opad :: "byte list"
  inner :: "byte list"

definition block_key :: "byte list \<Rightarrow> byte list" where
  "block_key key =
     (let k = (if length key > 64 then sha256 key else key)
      in k @ replicate (64 - length k) 0)"

definition hmac_New :: "byte list \<Rightarrow> hmac" where
  "hmac_New key = \<lparr>opad = map (\<lambda>b. b XOR 0x5c) (block_key key),
                   inner = map (\<lambda>b. b XOR 0x36) (block_key key)\<rparr>"

definition hmac_Write :: "hmac \<Rightarrow> byte list \<Rightarrow> hmac" where
  "hmac_Write h p = h\<lparr>inner := inner h @ p\<rparr>"

definition hmac_Sum :: "hmac \<Rightarrow> byte list" where
  "hmac_Sum h = sha256 (opad h @ sha256 (inner h))"

text \<open>
  HMAC-SHA256 as RFC 2104 states it, for comparison with what the signer computes:
  \<open>H((K' XOR opad) || H((K' XOR ipad) || text))\<close>.
\<close>

definition HMAC_SHA256 :: "byte list \<Rightarrow> byte list \<Rightarrow> byte list" where
  "HMAC_SHA256 key msg =
     sha256 (map (\<lambda>b. b XOR 0x5c) (block_key key)
             @ sha256 (map (\<lambda>b. b XOR 0x36) (block_key key) @ msg))"

subsection \<open>\<^verbatim>\<open>hex.EncodeToString\<close> and \<^verbatim>\<open>fmt.Sprintf("%v", n)\<close>\<close>

definition hextable :: string where
  "hextable = ''0123456789abcdef''"

definition EncodeToString :: "byte list \<Rightarrow> string" where
  "EncodeToString bs =
     concat (map (\<lambda>b. [hextable ! (unat b div 16), hextable ! (unat b mod 16)]) bs)"

definition digits10 :: string where
  "digits10 = ''0123456789''"

fun decimal :: "nat \<Rightarrow> string" where
  "decimal n = (if n < 10 then [digits10 ! n]
                else decimal (n div 10) @ [digits10 ! (n mod 10)])"

declare decimal.simps [simp del]

text \<open>The verb \<^verbatim>\<open>%v\<close> on an \<^verbatim>\<open>int64\<close>: decimal digits, with a minus sign below zero.\<close>

definition Sprint_int :: "int \<Rightarrow> string" where
  "Sprint_int i = (if i < 0 then CHR ''-'' # decimal (nat (- i)) else decimal (nat i))"

section \<open>Package \<^verbatim>\<open>coinbase\<close>: types\<close>

text \<open>A Go \<^verbatim>\<open>error\<close> value is its message; \<^verbatim>\<open>nil\<close> is \<^term>\<open>None\<close> of \<open>error option\<close>.\<close>

datatype error = Error string

text \<open>
  The structs of \<^verbatim>\<open>types.go\<close>, with the fields the modelled code reads. A field of a
  nested struct is named by its path (\<^verbatim>\<open>Balance.Amount\<close> is \<open>Balance_Amount\<close>).
\<close>

record User =
  User_Name :: string
  Country_Code :: string
  State :: string
  TimeZone :: string
  NativeCurrency :: string
  BitcoinUnit :: string
  User_CreatedAt :: string

record AccountData =
  ID :: string
  Name :: string
  Balance_Amount :: string
  Balance_Currency :: string

record Account =
  Account_Data :: "AccountData list"

record Price =
  Base :: string
  Amount :: string
  Currency :: string

record TransactionData =
  Type :: string
  Amount_Amount :: string
  Amount_Currency :: string
  NativeAmount_Amount :: string
  NativeAmount_Currency :: string

record Transaction =
  Transaction_Data :: "TransactionData list"

text \<open>The zero values \<^verbatim>\<open>User{}\<close>, \<^verbatim>\<open>Account{}\<close>, \<^verbatim>\<open>Price{}\<close> and \<^verbatim>\<open>Transaction{}\<close>.\<close>

definition User_zero :: User where
  "User_zero = \<lparr>User_Name = [], Country_Code = [], State = [], TimeZone = [],
                 NativeCurrency = [], BitcoinUnit = [], User_CreatedAt = []\<rparr>"

definition Account_zero :: Account where
  "Account_zero = \<lparr>Account_Data = []\<rparr>"

definition Price_zero :: Price where
  "Price_zero = \<lparr>Base = [], Amount = [], Currency = []\<rparr>"

definition Transaction_zero :: Transaction where
  "Transaction_zero = \<lparr>Transaction_Data = []\<rparr>"

definition cbAPIVersion :: string where
  "cbAPIVersion = ''2017-08-31''"

definition apiEndpointBase :: string where
  "apiEndpointBase = ''https://api.coinbase.com/v2/''"

definition Buy :: string where
  "Buy = ''buy''"

definition Sell :: string where
  "Sell = ''sell''"

definition Spot :: string where
  "Spot = ''spot''"

definition InflationReward :: string where
  "InflationReward = ''inflation_reward''"

section \<open>The world the program runs in\<close>

text \<open>
  An \<^verbatim>\<open>*http.Request\<close>: its method, the URL it was built from, \<^verbatim>\<open>URL.Path\<close>, and the
  header fields in the order \<^verbatim>\<open>Header.Add\<close> put them (net/http canonicalises a field
  name's letter case; names are kept as the source writes them).
\<close>

record http_request =
  Method :: string
  URL :: string
  Path :: string
  Header :: "(string \<times> string) list"

text \<open>
  An \<^verbatim>\<open>*http.Response\<close>: \<^verbatim>\<open>StatusCode\<close>, \<^verbatim>\<open>Status\<close> (such as \<^verbatim>\<open>401 Unauthorized\<close>) and
  what \<^verbatim>\<open>ioutil.ReadAll(resp.Body)\<close> gives.
\<close>

record http_response =
  StatusCode :: int
  Status :: string
  Body :: "error + string"

text \<open>
  Everything outside the repository is a field of the environment: the two environment
  variables, the clock (the value of the \<open>n\<close>-th \<^verbatim>\<open>time.Now().Unix()\<close> of the process),
  the URL parser of \<^verbatim>\<open>http.NewRequest\<close> (it fails, or gives \<^verbatim>\<open>URL.Path\<close>), the network
  (the outcome of the \<open>n\<close>-th \<^verbatim>\<open>hc.Do\<close> of the process), \<^verbatim>\<open>json.Unmarshal\<close> at each of
  the four target types, and \<^verbatim>\<open>float64\<close> with \<^verbatim>\<open>strconv.ParseFloat\<close>, the arithmetic the
  aggregator uses, the test \<^verbatim>\<open>x > 0\<close>, and the verbs \<^verbatim>\<open>%f\<close> and \<^verbatim>\<open>%.2f\<close>. The type
  \<open>'f\<close> stands for \<^verbatim>\<open>float64\<close>: no law of arithmetic is assumed of it.
\<close>

record 'f env =
  COINBASE_KEY :: string
  COINBASE_SECRET :: string
  unix_now :: "nat \<Rightarrow> int"
  url_Path :: "string \<Rightarrow> error + string"
  hc_Do :: "nat \<Rightarrow> http_request \<Rightarrow> error + http_response"
  Unmarshal_User :: "string \<Rightarrow> error + User"
  Unmarshal_Account :: "string \<Rightarrow> error + Account"
  Unmarshal_Price :: "string \<Rightarrow> error + Price"
  Unmarshal_Transaction :: "string \<Rightarrow> error + Transaction"
  ParseFloat :: "string \<Rightarrow> 'f \<times> error option"
  f_zero :: 'f
  f_add :: "'f \<Rightarrow> 'f \<Rightarrow> 'f"
  f_sub :: "'f \<Rightarrow> 'f \<Rightarrow> 'f"
  f_mul :: "'f \<Rightarrow> 'f \<Rightarrow> 'f"
  f_pos :: "'f \<Rightarrow> bool"
  Sprintf_f :: "'f \<Rightarrow> string"
  Sprintf_2f :: "'f \<Rightarrow> string"

text \<open>What the process writes to standard output.\<close>

datatype printed =
  Println_User User
| Table "string list" "string list list"
| Line string
| Elapsed_Run_Time

text \<open>
  The state of the process: the package variables \<^verbatim>\<open>cbAPIKey\<close> and \<^verbatim>\<open>cbAPISecret\<close>, how
  many times the clock was read, the round trips made so far (each request as sent,
  with what \<^verbatim>\<open>hc.Do\<close> answered), and the two output streams.
\<close>

record state =
  cbAPIKey :: string
  cbAPISecret :: string
  clock_reads :: nat
  sent :: "(http_request \<times> (error + http_response)) list"
  stdout :: "printed list"
  stderr :: "string list"

text \<open>A Go function returning \<^verbatim>\<open>(T, error)\<close> returns a pair.\<close>

type_synonym 'a result = "'a \<times> error option"

section \<open>Package \<^verbatim>\<open>coinbase\<close>: the gateway\<close>

definition APIKeyClient :: "'f env \<Rightarrow> state \<Rightarrow> state" where
  "APIKeyClient env st = st\<lparr>cbAPIKey := COINBASE_KEY env, cbAPISecret := COINBASE_SECRET env\<rparr>"

definition Now_Unix :: "'f env \<Rightarrow> state \<Rightarrow> int \<times> state" where
  "Now_Unix env st = (unix_now env (clock_reads st), st\<lparr>clock_reads := Suc (clock_reads st)\<rparr>)"

definition createSignature :: "'f env \<Rightarrow> http_request \<Rightarrow> state \<Rightarrow> string \<times> state" where
  "createSignature env r st =
     (let (timestamp, st1) = Now_Unix env st;
          h = hmac_New (bytes_of (cbAPISecret st1));
          h = hmac_Write h (bytes_of (Sprint_int timestamp @ Method r @ Path r))
      in (EncodeToString (hmac_Sum h), st1))"

definition appendHeaders ::
  "'f env \<Rightarrow> http_request \<Rightarrow> string \<Rightarrow> state \<Rightarrow> http_request \<times> state" where
  "appendHeaders env r sig st =
     (let r = r\<lparr>Header := Header r @ [(''CB-ACCESS-KEY'', cbAPIKey st)]\<rparr>;
          r = r\<lparr>Header := Header r @ [(''CB-ACCESS-SIGN'', sig)]\<rparr>;
          (now, st1) = Now_Unix env st;
          r = r\<lparr>Header := Header r @ [(''CB-ACCESS-TIMESTAMP'', Sprint_int now)]\<rparr>;
          r = r\<lparr>Header := Header r @ [(''CB-VERSION'', cbAPIVersion)]\<rparr>;
          r = r\<lparr>Header := Header r @ [(''Content-Type'', ''application/json'')]\<rparr>
      in (r, st1))"

definition NewRequest :: "'f env \<Rightarrow> string \<Rightarrow> string \<Rightarrow> error + http_request" where
  "NewRequest env method url =
     (case url_Path env url of
        Inl e \<Rightarrow> Inl e
      | Inr p \<Rightarrow> Inr \<lparr>Method = method, URL = url, Path = p, Header = []\<rparr>)"

definition bad_status :: "http_response \<Rightarrow> string \<Rightarrow> error" where
  "bad_status resp body =
     Error (''bad HTTP status return code: '' @ Status resp @ [CHR 0x0A] @ body)"

definition createRequest :: "'f env \<Rightarrow> string \<Rightarrow> state \<Rightarrow> string result \<times> state" where
  "createRequest env resourcePath st =
     (case NewRequest env ''GET'' (apiEndpointBase @ resourcePath) of
        Inl err \<Rightarrow> (([], Some err), st)
      | Inr req \<Rightarrow>
          (let (sig, st1) = createSignature env req st;
               (req, st2) = appendHeaders env req sig st1;
               answer = hc_Do env (length (sent st2)) req;
               st3 = st2\<lparr>sent := sent st2 @ [(req, answer)]\<rparr>
           in case answer of
                Inl err \<Rightarrow> (([], Some err), st3)
              | Inr resp \<Rightarrow>
                  (case Body resp of
                     Inl err \<Rightarrow> (([], Some err), st3)
                   | Inr body \<Rightarrow>
                       if StatusCode resp \<noteq> 200
                       then (([], Some (bad_status resp body)), st3)
                       else ((body, None), st3))))"

section \<open>Package \<^verbatim>\<open>coinbase\<close>: the client methods\<close>

definition GetUserProfile :: "'f env \<Rightarrow> state \<Rightarrow> User result \<times> state" where
  "GetUserProfile env st =
     (case createRequest env ''user'' st of
        ((body, Some err), st1) \<Rightarrow> ((User_zero, Some err), st1)
      | ((body, None), st1) \<Rightarrow>
          (case Unmarshal_User env body of
             Inl err \<Rightarrow> ((User_zero, Some err), st1)
           | Inr user \<Rightarrow> ((user, None), st1)))"

definition GetAccount :: "'f env \<Rightarrow> state \<Rightarrow> Account result \<times> state" where
  "GetAccount env st =
     (case createRequest env ''accounts'' st of
        ((body, Some err), st1) \<Rightarrow> ((Account_zero, Some err), st1)
      | ((body, None), st1) \<Rightarrow>
          (case Unmarshal_Account env body of
             Inl err \<Rightarrow> ((Account_zero, Some err), st1)
           | Inr account \<Rightarrow> ((account, None), st1)))"

text \<open>\<^verbatim>\<open>GetPrice\<close> returns \<^verbatim>\<open>Price{}, nil\<close> on both of its error paths.\<close>

definition GetPrice :: "'f env \<Rightarrow> string \<Rightarrow> string \<Rightarrow> state \<Rightarrow> Price result \<times> state" where
  "GetPrice env currencyPair priceType st =
     (case createRequest env (''prices/'' @ currencyPair @ ''/'' @ priceType) st of
        ((body, Some err), st1) \<Rightarrow> ((Price_zero, None), st1)
      | ((body, None), st1) \<Rightarrow>
          (case Unmarshal_Price env body of
             Inl err \<Rightarrow> ((Price_zero, None), st1)
           | Inr sp \<Rightarrow> ((sp, None), st1)))"

text \<open>
  \<^verbatim>\<open>GetTransactionHistory\<close> returns the request's error, and \<^verbatim>\<open>Transaction{}, nil\<close> when
  the body does not decode.
\<close>

definition GetTransactionHistory ::
  "'f env \<Rightarrow> string \<Rightarrow> state \<Rightarrow> Transaction result \<times> state" where
  "GetTransactionHistory env accountId st =
     (case createRequest env (''accounts/'' @ accountId @ ''/transactions'') st of
        ((body, Some err), st1) \<Rightarrow> ((Transaction_zero, Some err), st1)
      | ((body, None), st1) \<Rightarrow>
          (case Unmarshal_Transaction env body of
             Inl err \<Rightarrow> ((Transaction_zero, None), st1)
           | Inr t \<Rightarrow> ((t, None), st1)))"

subsection \<open>The stringer of \<^verbatim>\<open>Account\<close>\<close>

text \<open>
  \<^verbatim>\<open>Account.String\<close> either panics with the error of \<^verbatim>\<open>strconv.ParseFloat\<close> or returns the
  table it filled (the table is rendered by the library \<^verbatim>\<open>rodaine/table\<close>; the value here
  is the header handed to \<^verbatim>\<open>table.New\<close> and the rows handed to \<^verbatim>\<open>AddRow\<close>).
\<close>

datatype 'a go = Panic error | Returned 'a

fun String_rows :: "'f env \<Rightarrow> AccountData list \<Rightarrow> string list list \<Rightarrow> error + string list list" where
  "String_rows env [] tbl = Inr tbl"
| "String_rows env (act # rest) tbl =
     (case ParseFloat env (Balance_Amount act) of
        (amount, Some err) \<Rightarrow> Inl err
      | (amount, None) \<Rightarrow>
          String_rows env rest
            (if f_pos env amount
             then tbl @ [[Name act, Sprintf_f env amount, Balance_Currency act]]
             else tbl))"

definition Account_String :: "'f env \<Rightarrow> Account \<Rightarrow> printed go" where
  "Account_String env a =
     (case String_rows env (Account_Data a) [] of
        Inl err \<Rightarrow> Panic err
      | Inr tbl \<Rightarrow> Returned (Table [''Wallet Name'', ''Balance'', ''Currency''] tbl))"

section \<open>Package \<^verbatim>\<open>cmd\<close>: the aggregator\<close>

text \<open>
  A function of package \<^verbatim>\<open>cmd\<close> either ends the process through \<^verbatim>\<open>os.Exit\<close> or goes on
  with a value; both leave a state behind.
\<close>

datatype 'a step = Exit int | Cont 'a

definition errHandler :: "error option \<Rightarrow> state \<Rightarrow> unit step \<times> state" where
  "errHandler e st =
     (case e of
        None \<Rightarrow> (Cont (), st)
      | Some (Error msg) \<Rightarrow> (Exit 1, st\<lparr>stderr := stderr st @ [msg @ [CHR 0x0A]]\<rparr>))"

text \<open>Sequencing: nothing runs after \<^verbatim>\<open>os.Exit\<close>.\<close>

definition andThen ::
  "'a step \<times> state \<Rightarrow> ('a \<Rightarrow> state \<Rightarrow> 'b step \<times> state) \<Rightarrow> 'b step \<times> state" where
  "andThen r k = (case r of (Exit c, st) \<Rightarrow> (Exit c, st) | (Cont x, st) \<Rightarrow> k x st)"

text \<open>The two lines \<^verbatim>\<open>x, err := f(...)\<close> and \<^verbatim>\<open>errHandler(err)\<close>, then the rest with \<open>x\<close>.\<close>

definition check ::
  "'a result \<times> state \<Rightarrow> ('a \<Rightarrow> state \<Rightarrow> 'b step \<times> state) \<Rightarrow> 'b step \<times> state" where
  "check r k = (case r of ((x, err), st) \<Rightarrow> andThen (errHandler err st) (\<lambda>_. k x))"

text \<open>The loop \<^verbatim>\<open>for _, x := range xs { body }\<close> over the variables \<open>acc\<close> the body updates.\<close>

fun for_range ::
  "('x \<Rightarrow> 'acc \<Rightarrow> state \<Rightarrow> 'acc step \<times> state) \<Rightarrow> 'x list \<Rightarrow> 'acc \<Rightarrow> state \<Rightarrow> 'acc step \<times> state" where
  "for_range body [] acc st = (Cont acc, st)"
| "for_range body (x # xs) acc st =
     (case body x acc st of
        (Exit c, st1) \<Rightarrow> (Exit c, st1)
      | (Cont acc1, st1) \<Rightarrow> for_range body xs acc1 st1)"

subsection \<open>Overview mode\<close>

text \<open>
  The body of the loop over \<^verbatim>\<open>transactions.Data\<close> (lines 143 to 156 of \<^verbatim>\<open>coinbase.go\<close>),
  on the pair of \<^verbatim>\<open>invested\<close> and \<^verbatim>\<open>inflationRewards\<close>.
\<close>

definition transaction_body ::
  "'f env \<Rightarrow> TransactionData \<Rightarrow> 'f \<times> 'f \<Rightarrow> state \<Rightarrow> ('f \<times> 'f) step \<times> state" where
  "transaction_body env tr acc st =
     (case acc of (invested, inflationRewards) \<Rightarrow>
        check (ParseFloat env (NativeAmount_Amount tr), st) (\<lambda>trNcAmt st.
        check (ParseFloat env (Amount_Amount tr), st) (\<lambda>trAmt st.
          (Cont (if Type tr = Buy then (f_add env invested trNcAmt, inflationRewards)
                 else if Type tr = InflationReward
                      then (invested, f_add env inflationRewards trAmt)
                 else (invested, inflationRewards)), st))))"

text \<open>
  The local variables of one qualifying account (lines 121 to 159): the three quotes
  and their parsed amounts, the two sums over the transactions, and the two results.
\<close>

record 'f holding =
  h_amt :: 'f
  h_spotPrice :: Price
  h_spotAmt :: 'f
  h_buyPrice :: Price
  h_bpAmt :: 'f
  h_sellPrice :: Price
  h_sellAmt :: 'f
  h_invested :: 'f
  h_inflationRewards :: 'f
  h_sellOutAmount :: 'f
  h_returnAmount :: 'f

definition holding ::
  "'f env \<Rightarrow> User \<Rightarrow> AccountData \<Rightarrow> 'f \<Rightarrow> state \<Rightarrow> 'f holding step \<times> state" where
  "holding env user act amt st =
     (let currencyPair = Balance_Currency act @ ''-'' @ NativeCurrency user in
      check (GetPrice env currencyPair Spot st) (\<lambda>spotPrice st.
      check (ParseFloat env (Amount spotPrice), st) (\<lambda>spotAmt st.
      check (GetPrice env currencyPair Buy st) (\<lambda>buyPrice st.
      check (ParseFloat env (Amount buyPrice), st) (\<lambda>bpAmt st.
      check (GetPrice env currencyPair Sell st) (\<lambda>sellPrice st.
      check (ParseFloat env (Amount sellPrice), st) (\<lambda>sellAmt st.
      check (GetTransactionHistory env (ID act) st) (\<lambda>transactions st.
      andThen (for_range (transaction_body env) (Transaction_Data transactions)
                 (f_zero env, f_zero env) st) (\<lambda>(invested, inflationRewards) st.
        (let sellOutAmount = f_mul env amt sellAmt;
             returnAmount = f_sub env sellOutAmount invested
         in (Cont \<lparr>h_amt = amt, h_spotPrice = spotPrice, h_spotAmt = spotAmt,
                   h_buyPrice = buyPrice, h_bpAmt = bpAmt,
                   h_sellPrice = sellPrice, h_sellAmt = sellAmt,
                   h_invested = invested, h_inflationRewards = inflationRewards,
                   h_sellOutAmount = sellOutAmount, h_returnAmount = returnAmount\<rparr>,
             st)))))))))))"

definition overview_header :: "string list" where
  "overview_header = [''Wallet'', ''Balance'', ''Currency'', ''Spot Price Per Unit'',
     ''Buy Price Per Unit'', ''Sell Price Per Unit'', ''Total Sell Out Price'', ''Invested'',
     ''Inflation Rewards'', ''Total Return'']"

text \<open>The row handed to \<^verbatim>\<open>tbl.AddRow\<close> (lines 161 to 168).\<close>

definition overview_row :: "'f env \<Rightarrow> User \<Rightarrow> AccountData \<Rightarrow> 'f holding \<Rightarrow> string list" where
  "overview_row env user act h =
     [Name act, Sprintf_f env (h_amt h), Balance_Currency act,
      Sprintf_2f env (h_spotAmt h) @ '' '' @ Currency (h_spotPrice h),
      Sprintf_2f env (h_bpAmt h) @ '' '' @ Currency (h_buyPrice h),
      Sprintf_2f env (h_sellAmt h) @ '' '' @ Currency (h_sellPrice h),
      Sprintf_2f env (h_sellOutAmount h) @ '' '' @ Currency (h_sellPrice h),
      Sprintf_2f env (h_invested h) @ '' '' @ NativeCurrency user,
      Sprintf_f env (h_inflationRewards h) @ '' '' @ Balance_Currency act,
      Sprintf_2f env (h_returnAmount h) @ '' '' @ NativeCurrency user]"

text \<open>
  The body of the loop over \<^verbatim>\<open>account.Data\<close> (lines 115 to 174), on the rows of the table,
  \<^verbatim>\<open>totalSellOutAmount\<close> and \<^verbatim>\<open>totalReturnAmount\<close>.
\<close>

definition overview_body ::
  "'f env \<Rightarrow> User \<Rightarrow> AccountData \<Rightarrow> string list list \<times> 'f \<times> 'f \<Rightarrow> state
     \<Rightarrow> (string list list \<times> 'f \<times> 'f) step \<times> state" where
  "overview_body env user act acc st =
     (case acc of (tbl, totalSellOutAmount, totalReturnAmount) \<Rightarrow>
        check (ParseFloat env (Balance_Amount act), st) (\<lambda>amt st.
          if f_pos env amt
          then andThen (holding env user act amt st) (\<lambda>h st.
                 (Cont (tbl @ [overview_row env user act h],
                        f_add env totalSellOutAmount (f_mul env amt (h_sellAmt h)),
                        f_add env totalReturnAmount (h_returnAmount h)), st))
          else (Cont acc, st)))"

text \<open>Lines 112 to 179: the loop, then the table and the two totals are printed.\<close>

definition overview_report :: "'f env \<Rightarrow> User \<Rightarrow> AccountData list \<Rightarrow> state \<Rightarrow> unit step \<times> state" where
  "overview_report env user accts st =
     andThen (for_range (overview_body env user) accts ([], f_zero env, f_zero env) st)
       (\<lambda>(tbl, totalSellOutAmount, totalReturnAmount) st.
          (Cont (), st\<lparr>stdout := stdout st @
             [Table overview_header tbl,
              Line (''Total Sell Out Amount: '' @ Sprintf_2f env totalSellOutAmount
                    @ '' '' @ NativeCurrency user),
              Line (''Total Return Amount: '' @ Sprintf_2f env totalReturnAmount
                    @ '' '' @ NativeCurrency user)]\<rparr>))"

definition getCoinbaseOverview :: "'f env \<Rightarrow> state \<Rightarrow> unit step \<times> state" where
  "getCoinbaseOverview env st =
     check (GetUserProfile env (APIKeyClient env st)) (\<lambda>user st.
     check (GetAccount env (st\<lparr>stdout := stdout st @ [Println_User user]\<rparr>)) (\<lambda>account st.
       overview_report env user (Account_Data account) st))"

subsection \<open>Accounts mode\<close>

text \<open>
  The body of the loop of \<^verbatim>\<open>getCoinbaseAccounts\<close> (lines 235 to 247). The function has no
  \<^verbatim>\<open>go\<close> statement: each quote is fetched in the loop itself. Its \<^verbatim>\<open>sync.WaitGroup\<close> is
  given \<^verbatim>\<open>len(acts.Data)\<close> and never read again, so it is no part of the model.
\<close>

definition accounts_body ::
  "'f env \<Rightarrow> User \<Rightarrow> AccountData \<Rightarrow> string list list \<Rightarrow> state
     \<Rightarrow> string list list step \<times> state" where
  "accounts_body env user a tbl st =
     check (ParseFloat env (Balance_Amount a), st) (\<lambda>amt st.
       if f_pos env amt
       then (let currencyPair = Balance_Currency a @ ''-'' @ NativeCurrency user in
             check (GetPrice env currencyPair Spot st) (\<lambda>spotPrice st.
             check (ParseFloat env (Amount spotPrice), st) (\<lambda>sAmt st.
               (Cont (tbl @ [[Name a, Balance_Amount a,
                              Sprintf_2f env (f_mul env sAmt amt) @ '' '' @ NativeCurrency user]]),
                st))))
       else (Cont tbl, st))"

definition accounts_report :: "'f env \<Rightarrow> User \<Rightarrow> AccountData list \<Rightarrow> state \<Rightarrow> unit step \<times> state" where
  "accounts_report env user accts st =
     andThen (for_range (accounts_body env user) accts [] st) (\<lambda>tbl st.
       (Cont (), st\<lparr>stdout := stdout st @ [Table [''Wallet'', ''Balance'', ''Native''] tbl]\<rparr>))"

definition getCoinbaseAccounts :: "'f env \<Rightarrow> state \<Rightarrow> unit step \<times> state" where
  "getCoinbaseAccounts env st =
     check (GetUserProfile env (APIKeyClient env st)) (\<lambda>user st.
     check (GetAccount env st) (\<lambda>acts st.
       accounts_report env user (Account_Data acts) st))"

subsection \<open>The command\<close>

text \<open>
  \<^verbatim>\<open>coinbaseCmd.Run\<close> (lines 61 to 78). \<^verbatim>\<open>getCoinbaseTransactions\<close> starts one goroutine per
  account; it is the parameter \<open>transactions\<close>, any function of the state. The duration
  printed last is read off the monotonic clock and is left out of the line.
\<close>

definition Run ::
  "'f env \<Rightarrow> (state \<Rightarrow> unit step \<times> state) \<Rightarrow> bool \<Rightarrow> bool \<Rightarrow> state \<Rightarrow> unit step \<times> state" where
  "Run env transactions listTransactions listAccounts st =
     andThen (if listTransactions then transactions st else (Cont (), st)) (\<lambda>_ st.
     andThen (if listAccounts then getCoinbaseAccounts env st else (Cont (), st)) (\<lambda>_ st.
     andThen (if \<not> listAccounts \<and> \<not> listTransactions then getCoinbaseOverview env st
              else (Cont (), st)) (\<lambda>_ st.
       (Cont (), st\<lparr>stdout := stdout st @ [Line [], Elapsed_Run_Time]\<rparr>))))"


section \<open>Notions the properties are stated with\<close>

text \<open>
  The signature of Section 4.1 of the specification, as a function of the secret, the
  timestamp, the method and the path: the lower-case hex encoding of HMAC-SHA256 over the
  timestamp in decimal, then the method, then the path.
\<close>

definition signature :: "string \<Rightarrow> int \<Rightarrow> string \<Rightarrow> string \<Rightarrow> string" where
  "signature secret timestamp method path =
     EncodeToString (HMAC_SHA256 (bytes_of secret) (bytes_of (Sprint_int timestamp @ method @ path)))"

text \<open>
  A sum of \<^verbatim>\<open>float64\<close> values is the one the code forms: from zero, adding from left to
  right. A string parses when \<^verbatim>\<open>strconv.ParseFloat\<close> returns a \<^verbatim>\<open>nil\<close> error.
\<close>

definition float_sum :: "'f env \<Rightarrow> 'f list \<Rightarrow> 'f" where
  "float_sum env xs = foldl (f_add env) (f_zero env) xs"

definition parses :: "'f env \<Rightarrow> string \<Rightarrow> bool" where
  "parses env s = (snd (ParseFloat env s) = None)"

definition parsed :: "'f env \<Rightarrow> string \<Rightarrow> 'f" where
  "parsed env s = fst (ParseFloat env s)"

definition qualifies :: "'f env \<Rightarrow> AccountData \<Rightarrow> bool" where
  "qualifies env a = (parses env (Balance_Amount a) \<and> f_pos env (parsed env (Balance_Amount a)))"

definition nonpositive :: "'f env \<Rightarrow> AccountData \<Rightarrow> bool" where
  "nonpositive env a = (parses env (Balance_Amount a) \<and> \<not> f_pos env (parsed env (Balance_Amount a)))"

text \<open>
  A round trip whose transport succeeded (\<^verbatim>\<open>hc.Do\<close> and \<^verbatim>\<open>ioutil.ReadAll\<close> returned no
  error) with a status other than 200; the round trips made between two states; and what
  the process printed apart from the user's profile (tables and totals).
\<close>

definition non200 :: "http_request \<times> (error + http_response) \<Rightarrow> bool" where
  "non200 t =
     (case snd t of
        Inl err \<Rightarrow> False
      | Inr resp \<Rightarrow> (case Body resp of Inl err \<Rightarrow> False | Inr body \<Rightarrow> StatusCode resp \<noteq> 200))"

fun is_profile :: "printed \<Rightarrow> bool" where
  "is_profile (Println_User u) = True"
| "is_profile p = False"

definition report :: "state \<Rightarrow> printed list" where
  "report st = filter (\<lambda>p. \<not> is_profile p) (stdout st)"

definition round_trips :: "state \<Rightarrow> state \<Rightarrow> (http_request \<times> (error + http_response)) list" where
  "round_trips st st' = drop (length (sent st)) (sent st')"


text \<open>
  Invariants of the proofs. Between two states the log of round trips only grows
  (\<open>extends\<close>), and it grows \<open>clean\<close> when no new round trip is a \<open>non200\<close> one. A step
  is \<open>guarded\<close> when it goes on only after clean round trips, exits only with status 1,
  and prints no table; \<open>aborting\<close> is the same for a step that may print when it goes
  on. A client method \<open>reports\<close> when it returns \<^verbatim>\<open>nil\<close> only after clean round trips;
  \<^verbatim>\<open>GetPrice\<close> only \<open>swallows\<close>: after a round trip that is not clean it returns the zero
  \<^verbatim>\<open>Price\<close> and \<^verbatim>\<open>nil\<close>.
\<close>

definition clean :: "state \<Rightarrow> state \<Rightarrow> bool" where
  "clean st st' = (\<exists>new. sent st' = sent st @ new \<and> list_all (\<lambda>t. \<not> non200 t) new)"

definition extends :: "state \<Rightarrow> state \<Rightarrow> bool" where
  "extends st st' = (\<exists>new. sent st' = sent st @ new)"

definition guarded :: "(state \<Rightarrow> 'a step \<times> state) \<Rightarrow> bool" where
  "guarded m = (\<forall>st. case m st of
                  (Cont x, st') \<Rightarrow> clean st st' \<and> report st' = report st
                | (Exit c, st') \<Rightarrow> c = 1 \<and> extends st st' \<and> report st' = report st)"

definition aborting :: "(state \<Rightarrow> 'a step \<times> state) \<Rightarrow> bool" where
  "aborting m = (\<forall>st. case m st of
                  (Cont x, st') \<Rightarrow> clean st st'
                | (Exit c, st') \<Rightarrow> c = 1 \<and> extends st st' \<and> report st' = report st)"




section \<open>A mock exchange\<close>

text \<open>
  Concrete inputs for the closed theorems: a user reporting in USD; three accounts, of
  which the second has the balance \<^verbatim>\<open>0.00000000\<close>; a server that answers the routes of a
  table with status 200 and every other URL with 404; decoders that know the bodies of
  that table; \<^verbatim>\<open>float64\<close> cut down to the integers that occur, with a parser that knows
  their spellings; and a clock whose second changes between its first and second reading.
  The first account is the end-to-end scenario of Section 8 of the specification.
\<close>

definition mock_user :: User where
  "mock_user = \<lparr>User_Name = ''Satoshi'', Country_Code = ''US'', State = ''TX'',
                 TimeZone = ''Central Time'', NativeCurrency = ''USD'',
                 BitcoinUnit = ''BTC'', User_CreatedAt = ''2017-01-01T00:00:00Z''\<rparr>"

definition btc :: AccountData where
  "btc = \<lparr>ID = ''a1'', Name = ''BTC Wallet'', Balance_Amount = ''1.0'', Balance_Currency = ''BTC''\<rparr>"

definition eth :: AccountData where
  "eth = \<lparr>ID = ''a2'', Name = ''ETH Wallet'', Balance_Amount = ''0.00000000'', Balance_Currency = ''ETH''\<rparr>"

definition atom :: AccountData where
  "atom = \<lparr>ID = ''a3'', Name = ''ATOM Wallet'', Balance_Amount = ''2'', Balance_Currency = ''ATOM''\<rparr>"

definition broken :: AccountData where
  "broken = \<lparr>ID = ''a9'', Name = ''Broken'', Balance_Amount = ''abc'', Balance_Currency = ''XYZ''\<rparr>"

definition quote :: "string \<Rightarrow> string \<Rightarrow> Price" where
  "quote b a = \<lparr>Base = b, Amount = a, Currency = ''USD''\<rparr>"

definition tx :: "string \<Rightarrow> string \<Rightarrow> string \<Rightarrow> string \<Rightarrow> TransactionData" where
  "tx t a c n = \<lparr>Type = t, Amount_Amount = a, Amount_Currency = c,
                 NativeAmount_Amount = n, NativeAmount_Currency = ''USD''\<rparr>"

definition atom_history :: "TransactionData list" where
  "atom_history = [tx ''buy'' ''1'' ''ATOM'' ''15.00'', tx ''inflation_reward'' ''1'' ''ATOM'' ''10'',
                   tx ''send'' ''-3'' ''ATOM'' ''-30.00'']"

definition mock_routes :: "(string \<times> string) list" where
  "mock_routes =
     [(''https://api.coinbase.com/v2/user'', ''user''),
      (''https://api.coinbase.com/v2/accounts'', ''accounts''),
      (''https://api.coinbase.com/v2/prices/BTC-USD/spot'', ''btc-spot''),
      (''https://api.coinbase.com/v2/prices/BTC-USD/buy'', ''btc-buy''),
      (''https://api.coinbase.com/v2/prices/BTC-USD/sell'', ''btc-sell''),
      (''https://api.coinbase.com/v2/accounts/a1/transactions'', ''btc-tx''),
      (''https://api.coinbase.com/v2/prices/ATOM-USD/spot'', ''atom-spot''),
      (''https://api.coinbase.com/v2/prices/ATOM-USD/buy'', ''atom-buy''),
      (''https://api.coinbase.com/v2/prices/ATOM-USD/sell'', ''atom-sell''),
      (''https://api.coinbase.com/v2/accounts/a3/transactions'', ''atom-tx''),
      (''https://api.coinbase.com/v2/accounts/a2/transactions'', ''not json'')]"

definition mock_outage :: "(string \<times> string) list" where
  "mock_outage = take 2 mock_routes"

definition mock_Do :: "(string \<times> string) list \<Rightarrow> nat \<Rightarrow> http_request \<Rightarrow> error + http_response" where
  "mock_Do routes n req =
     (case map_of routes (URL req) of
        Some body \<Rightarrow> Inr \<lparr>StatusCode = 200, Status = ''200 OK'', Body = Inr body\<rparr>
      | None \<Rightarrow> Inr \<lparr>StatusCode = 404, Status = ''404 Not Found'', Body = Inr ''no such route''\<rparr>)"

definition decode :: "(string \<times> 'a) list \<Rightarrow> string \<Rightarrow> error + 'a" where
  "decode table body =
     (case map_of table body of
        Some v \<Rightarrow> Inr v
      | None \<Rightarrow> Inl (Error ''invalid character in JSON input''))"

definition mock_ParseFloat :: "string \<Rightarrow> int \<times> error option" where
  "mock_ParseFloat s =
     (case map_of [(''1.0'', 1), (''0.00000000'', 0), (''2'', 2), (''30000.00'', 30000),
                   (''30100.00'', 30100), (''29900.00'', 29900), (''25000.00'', 25000),
                   (''11'', 11), (''12'', 12), (''10'', 10), (''15.00'', 15), (''1'', 1),
                   (''-3'', -3), (''-30.00'', -30)] s of
        Some v \<Rightarrow> (v, None)
      | None \<Rightarrow> (0, Some (Error (''strconv.ParseFloat: parsing '' @ s @ '': invalid syntax''))))"

definition mock :: "(string \<times> string) list \<Rightarrow> int env" where
  "mock routes =
     \<lparr>COINBASE_KEY = ''key'', COINBASE_SECRET = ''secret'',
      unix_now = (\<lambda>n. if n = 0 then 1700000000 else 1700000001),
      url_Path = (\<lambda>url. Inr (drop 24 url)),
      hc_Do = mock_Do routes,
      Unmarshal_User = decode [(''user'', mock_user)],
      Unmarshal_Account = decode [(''accounts'', \<lparr>Account_Data = [btc, eth, atom]\<rparr>)],
      Unmarshal_Price = decode
        [(''btc-spot'', quote ''BTC'' ''30000.00''), (''btc-buy'', quote ''BTC'' ''30100.00''),
         (''btc-sell'', quote ''BTC'' ''29900.00''), (''atom-spot'', quote ''ATOM'' ''11''),
         (''atom-buy'', quote ''ATOM'' ''12''), (''atom-sell'', quote ''ATOM'' ''10'')],
      Unmarshal_Transaction = decode
        [(''btc-tx'', \<lparr>Transaction_Data = [tx ''buy'' ''1.0'' ''BTC'' ''25000.00'']\<rparr>),
         (''atom-tx'', \<lparr>Transaction_Data = atom_history\<rparr>)],
      ParseFloat = mock_ParseFloat,
      f_zero = 0, f_add = (+), f_sub = (-), f_mul = (*), f_pos = (\<lambda>x. 0 < x),
      Sprintf_f = (\<lambda>x. Sprint_int x @ ''.000000''), Sprintf_2f = (\<lambda>x. Sprint_int x @ ''.00'')\<rparr>"

definition start :: state where
  "start = \<lparr>cbAPIKey = [], cbAPISecret = [], clock_reads = 0, sent = [], stdout = [], stderr = []\<rparr>"

section \<open>The signer\<close>

lemma length_round256: "length (round256 v kw) = length v"
  by (induction v kw rule: round256.induct) (simp_all add: Let_def)

lemma length_rounds: "length (foldl round256 v kws) = length v"
  by (induction kws arbitrary: v) (simp_all add: length_round256)

lemma length_compress: "length (compress hs blk) = length hs"
  by (simp add: compress_def length_rounds)

lemma length_compress_all: "length (foldl compress hs blks) = length hs"
  by (induction blks arbitrary: hs) (simp_all add: length_compress)

lemma length_be_bytes: "length (concat (map be_bytes ws)) = 4 * length ws"
  by (induction ws) (simp_all add: be_bytes_def)

lemma length_sha256: "length (sha256 m) = 32"
  by (simp add: sha256_def Let_def length_be_bytes length_compress_all H256_def)

lemma length_EncodeToString: "length (EncodeToString bs) = 2 * length bs"
  by (induction bs) (simp_all add: EncodeToString_def)

lemma hex_digit: "n < 16 \<Longrightarrow> hextable ! n \<in> set hextable"
  by (rule nth_mem) (simp add: hextable_def)

lemma set_EncodeToString: "set (EncodeToString bs) \<subseteq> set hextable"
proof -
  have "unat b div 16 < 16" and "unat b mod 16 < 16" for b :: byte
    using unsigned_less [of b, where ?'a = nat] by simp_all
  then show ?thesis
    by (auto simp: EncodeToString_def intro: hex_digit)
qed

text \<open>
  The first test vector of FIPS 180-4 for SHA-256, evaluated in the kernel.
\<close>

lemma sha256_abc:
  "EncodeToString (sha256 (bytes_of ''abc''))
     = ''ba7816bf8f01cfea414140de5dae2223b00361a396177a9cb410ff61f20015ad''"
  by code_simp

text \<open>
  The way the signer drives \<^verbatim>\<open>crypto/hmac\<close> computes HMAC-SHA256 as RFC 2104 defines it.
\<close>

lemma hmac_refines: "hmac_Sum (hmac_Write (hmac_New key) msg) = HMAC_SHA256 key msg"
  by (simp add: hmac_Sum_def hmac_Write_def hmac_New_def HMAC_SHA256_def)

lemma createSignature_eq:
  "createSignature env r st =
     (signature (cbAPISecret st) (unix_now env (clock_reads st)) (Method r) (Path r),
      st\<lparr>clock_reads := Suc (clock_reads st)\<rparr>)"
  by (simp add: createSignature_def Now_Unix_def signature_def hmac_refines)

text \<open>
  Claim C3: for every secret, method, path and timestamp (the value the clock gives when
  the signer reads it), the signature is the hex encoding of the HMAC-SHA256, keyed by
  the secret, of the timestamp, then the method, then the path; and two calls of the
  signer that agree on these four (in any environment, state and request) return the
  same signature.
\<close>

theorem createSignature_hex_hmac_sha256:
  "fst (createSignature env r st) =
     EncodeToString (HMAC_SHA256 (bytes_of (cbAPISecret st))
       (bytes_of (Sprint_int (unix_now env (clock_reads st)) @ Method r @ Path r)))
   \<and> (\<forall>env' r' st'.
         cbAPISecret st' = cbAPISecret st \<and> Method r' = Method r \<and> Path r' = Path r
         \<and> unix_now env' (clock_reads st') = unix_now env (clock_reads st)
         \<longrightarrow> fst (createSignature env' r' st') = fst (createSignature env r st))"
  by (simp add: createSignature_eq signature_def)

text \<open>
  A signature is 64 lower-case hexadecimal digits.
\<close>

lemma signature_shape:
  "length (signature secret timestamp method path) = 64
   \<and> set (signature secret timestamp method path) \<subseteq> set ''0123456789abcdef''"
  using set_EncodeToString [of "HMAC_SHA256 (bytes_of secret) (bytes_of (Sprint_int timestamp @ method @ path))"]
  by (simp add: signature_def length_EncodeToString HMAC_SHA256_def length_sha256 hextable_def)

text \<open>
  The headers of the request \<^verbatim>\<open>createRequest\<close> sends, in any environment: the signature is
  over the first reading of the clock, the timestamp header is the second reading.
\<close>

lemma createRequest_headers:
  assumes "url_Path env (apiEndpointBase @ p) = Inr path"
  shows "map (\<lambda>(req, answer). Header req) (round_trips st (snd (createRequest env p st)))
     = [[(''CB-ACCESS-KEY'', cbAPIKey st),
         (''CB-ACCESS-SIGN'',
            signature (cbAPISecret st) (unix_now env (clock_reads st)) ''GET'' path),
         (''CB-ACCESS-TIMESTAMP'', Sprint_int (unix_now env (Suc (clock_reads st)))),
         (''CB-VERSION'', ''2017-08-31''),
         (''Content-Type'', ''application/json'')]]"
  using assms
  by (simp add: createRequest_def NewRequest_def Let_def split_beta createSignature_eq
                appendHeaders_def Now_Unix_def round_trips_def cbAPIVersion_def
           split: sum.splits)

section \<open>The command\<close>

text \<open>
  Claim C9: with both flags set the command runs Transactions mode, then (unless that
  ended the process) Accounts mode, then prints the elapsed time; Overview mode does not
  occur in what it computes.
\<close>

theorem both_flags_transactions_then_accounts:
  "Run env transactions True True st =
     (case transactions st of
        (Exit c, st1) \<Rightarrow> (Exit c, st1)
      | (Cont u, st1) \<Rightarrow>
          (case getCoinbaseAccounts env st1 of
             (Exit c, st2) \<Rightarrow> (Exit c, st2)
           | (Cont v, st2) \<Rightarrow> (Cont (), st2\<lparr>stdout := stdout st2 @ [Line [], Elapsed_Run_Time]\<rparr>)))"
  by (simp add: Run_def andThen_def split: prod.splits step.splits)

section \<open>Sequencing and iteration\<close>

lemma andThen_Cont [simp]: "andThen (Cont x, st) k = k x st"
  by (simp add: andThen_def)

lemma andThen_Exit [simp]: "andThen (Exit c, st) k = (Exit c, st)"
  by (simp add: andThen_def)

lemma andThen_eq_Cont:
  "andThen m k = (Cont y, st') \<longleftrightarrow> (\<exists>x s. m = (Cont x, s) \<and> k x s = (Cont y, st'))"
  by (cases m; cases "fst m") (auto simp: andThen_def)

lemma check_None [simp]: "check ((x, None), st) k = k x st"
  by (simp add: check_def errHandler_def)

lemma check_Some [simp]:
  "check ((x, Some (Error msg)), st) k = (Exit 1, st\<lparr>stderr := stderr st @ [msg @ [CHR 0x0A]]\<rparr>)"
  by (simp add: check_def errHandler_def)

lemma check_eq_Cont:
  "check m k = (Cont y, st') \<longleftrightarrow> (\<exists>x s. m = ((x, None), s) \<and> k x s = (Cont y, st'))"
proof (cases m)
  case (Pair r s)
  then show ?thesis
  proof (cases r)
    case (Pair x e)
    with \<open>m = (r, s)\<close> show ?thesis
      by (cases e; cases "the e") auto
  qed
qed

lemma check_parse:
  "check (ParseFloat env s, st) k =
     (if parses env s then k (parsed env s) st
      else (Exit 1, st\<lparr>stderr := stderr st @
              [(case the (snd (ParseFloat env s)) of Error msg \<Rightarrow> msg) @ [CHR 0x0A]]\<rparr>))"
  by (cases "ParseFloat env s"; cases "snd (ParseFloat env s)"; cases "the (snd (ParseFloat env s))")
     (auto simp: parses_def parsed_def)

lemma for_range_append:
  "for_range body (xs @ ys) acc st =
     andThen (for_range body xs acc st) (\<lambda>acc1 st1. for_range body ys acc1 st1)"
  by (induction xs arbitrary: acc st) (auto split: prod.splits step.splits)

section \<open>The sums over the transactions\<close>

lemma Buy_neq_InflationReward: "Buy \<noteq> InflationReward"
  by (simp add: Buy_def InflationReward_def)

lemma transaction_body_parsed:
  assumes "parses env (NativeAmount_Amount tr)" and "parses env (Amount_Amount tr)"
  shows "transaction_body env tr (invested, inflationRewards) st =
     (Cont (if Type tr = Buy
            then (f_add env invested (parsed env (NativeAmount_Amount tr)), inflationRewards)
            else if Type tr = InflationReward
            then (invested, f_add env inflationRewards (parsed env (Amount_Amount tr)))
            else (invested, inflationRewards)), st)"
  using assms by (simp add: transaction_body_def check_parse)

lemma transactions_fold:
  assumes "\<forall>tr\<in>set trs. parses env (NativeAmount_Amount tr) \<and> parses env (Amount_Amount tr)"
  shows "for_range (transaction_body env) trs (invested, inflationRewards) st =
     (Cont (foldl (f_add env) invested
              (map (\<lambda>tr. parsed env (NativeAmount_Amount tr)) (filter (\<lambda>tr. Type tr = Buy) trs)),
            foldl (f_add env) inflationRewards
              (map (\<lambda>tr. parsed env (Amount_Amount tr))
                 (filter (\<lambda>tr. Type tr = InflationReward) trs))), st)"
  using assms
proof (induction trs arbitrary: invested inflationRewards)
  case Nil
  then show ?case by simp
next
  case (Cons tr trs)
  then show ?case
    by (simp add: transaction_body_parsed Buy_neq_InflationReward)
qed

lemma transaction_body_Cont:
  "transaction_body env tr acc st = (Cont acc1, st1)
     \<Longrightarrow> parses env (NativeAmount_Amount tr) \<and> parses env (Amount_Amount tr) \<and> st1 = st"
  by (cases acc) (auto simp: transaction_body_def check_parse split: if_splits)

lemma transactions_Cont:
  "for_range (transaction_body env) trs acc st = (Cont acc1, st1)
     \<Longrightarrow> (\<forall>tr\<in>set trs. parses env (NativeAmount_Amount tr) \<and> parses env (Amount_Amount tr))
         \<and> st1 = st"
proof (induction trs arbitrary: acc st)
  case Nil
  then show ?case by simp
next
  case (Cons tr trs)
  then obtain acc2 st2 where b: "transaction_body env tr acc st = (Cont acc2, st2)"
    and r: "for_range (transaction_body env) trs acc2 st2 = (Cont acc1, st1)"
    by (auto split: prod.splits step.splits)
  from transaction_body_Cont [OF b] Cons.IH [OF r] show ?case by simp
qed

text \<open>
  Claim C5: over a list of transactions whose amounts all parse (otherwise the run
  aborts), the loop leaves in \<open>invested\<close> the sum of the native amounts of exactly the
  transactions of type \<^verbatim>\<open>buy\<close>, and in \<open>inflationRewards\<close> the sum of the asset amounts
  of exactly those of type \<^verbatim>\<open>inflation_reward\<close>; a transaction of any other type is
  in neither sum. The state is left as it was.
\<close>

theorem invested_and_rewards:
  "(\<forall>tr\<in>set trs. parses env (NativeAmount_Amount tr) \<and> parses env (Amount_Amount tr))
   \<longrightarrow> for_range (transaction_body env) trs (f_zero env, f_zero env) st =
     (Cont (float_sum env (map (\<lambda>tr. parsed env (NativeAmount_Amount tr))
                             (filter (\<lambda>tr. Type tr = ''buy'') trs)),
            float_sum env (map (\<lambda>tr. parsed env (Amount_Amount tr))
                             (filter (\<lambda>tr. Type tr = ''inflation_reward'') trs))), st)"
  using transactions_fold [of trs env "f_zero env" "f_zero env" st]
  by (simp add: float_sum_def Buy_def InflationReward_def)

section \<open>Accounts without a positive balance\<close>

lemma overview_body_nonpositive:
  "nonpositive env a \<Longrightarrow> overview_body env user a acc st = (Cont acc, st)"
  by (cases acc) (simp add: overview_body_def check_parse nonpositive_def)

lemma accounts_body_nonpositive:
  "nonpositive env a \<Longrightarrow> accounts_body env user a tbl st = (Cont tbl, st)"
  by (simp add: accounts_body_def check_parse nonpositive_def)

lemma for_range_skip:
  assumes "\<And>acc st. body a acc st = (Cont acc, st)"
  shows "for_range body (xs @ a # ys) acc st = for_range body (xs @ ys) acc st"
  by (simp add: for_range_append assms)

text \<open>
  Claim C6: an account whose balance parses to an amount that is not strictly positive
  changes nothing in Overview mode or in Accounts mode: with it or without it in the
  account list, the run ends the same way in the same state, so the same requests are
  sent, the same rows and totals are printed.
\<close>

theorem nonpositive_account_excluded:
  assumes "nonpositive env a"
  shows "overview_report env user (xs @ a # ys) st = overview_report env user (xs @ ys) st
       \<and> accounts_report env user (xs @ a # ys) st = accounts_report env user (xs @ ys) st"
  using assms
  by (simp add: overview_report_def accounts_report_def for_range_skip
        overview_body_nonpositive accounts_body_nonpositive)

section \<open>The totals of Overview mode\<close>

lemma holding_Cont:
  assumes "holding env user act amt st = (Cont h, st')"
  shows "h_amt h = amt
       \<and> h_sellOutAmount h = f_mul env amt (h_sellAmt h)
       \<and> h_returnAmount h = f_sub env (h_sellOutAmount h) (h_invested h)
       \<and> parses env (Amount (h_sellPrice h))
       \<and> h_sellAmt h = parsed env (Amount (h_sellPrice h))"
  using assms
  by (auto simp: holding_def Let_def check_eq_Cont andThen_eq_Cont check_parse
           split: if_splits prod.splits)

lemma overview_body_Cont:
  assumes "overview_body env user a (tbl0, ts0, tr0) st = (Cont acc1, st1)"
  shows "(qualifies env a \<and>
           (\<exists>h. holding env user a (parsed env (Balance_Amount a)) st = (Cont h, st1)
              \<and> acc1 = (tbl0 @ [overview_row env user a h],
                         f_add env ts0 (h_sellOutAmount h),
                         f_add env tr0 (h_returnAmount h))))
       \<or> (nonpositive env a \<and> acc1 = (tbl0, ts0, tr0) \<and> st1 = st)"
proof (cases "parses env (Balance_Amount a)")
  case False
  with assms show ?thesis
    by (simp add: overview_body_def check_parse)
next
  case True
  show ?thesis
  proof (cases "f_pos env (parsed env (Balance_Amount a))")
    case False
    with True assms show ?thesis
      by (simp add: overview_body_def check_parse nonpositive_def)
  next
    case pos: True
    with True assms obtain h where
      h: "holding env user a (parsed env (Balance_Amount a)) st = (Cont h, st1)"
      and acc: "acc1 = (tbl0 @ [overview_row env user a h],
                        f_add env ts0 (f_mul env (parsed env (Balance_Amount a)) (h_sellAmt h)),
                        f_add env tr0 (h_returnAmount h))"
      by (auto simp: overview_body_def check_parse andThen_eq_Cont)
    from holding_Cont [OF h] acc have
      "acc1 = (tbl0 @ [overview_row env user a h],
               f_add env ts0 (h_sellOutAmount h), f_add env tr0 (h_returnAmount h))"
      by simp
    with h True pos show ?thesis by (auto simp: qualifies_def)
  qed
qed

lemma overview_loop_Cont:
  assumes "for_range (overview_body env user) accts (tbl0, ts0, tr0) st = (Cont (tbl, ts, tr), st')"
  shows "\<exists>hs. list_all2 (\<lambda>a h. \<exists>s s'. holding env user a (parsed env (Balance_Amount a)) s = (Cont h, s'))
                 (filter (qualifies env) accts) hs
            \<and> tbl = tbl0 @ map2 (overview_row env user) (filter (qualifies env) accts) hs
            \<and> ts = foldl (f_add env) ts0 (map h_sellOutAmount hs)
            \<and> tr = foldl (f_add env) tr0 (map h_returnAmount hs)"
  using assms
proof (induction accts arbitrary: tbl0 ts0 tr0 st)
  case Nil
  then show ?case by simp
next
  case (Cons a accts)
  from Cons.prems obtain acc1 st1 where
    b: "overview_body env user a (tbl0, ts0, tr0) st = (Cont acc1, st1)"
    and r: "for_range (overview_body env user) accts acc1 st1 = (Cont (tbl, ts, tr), st')"
    by (auto split: prod.splits step.splits)
  from overview_body_Cont [OF b] show ?case
  proof
    assume q: "qualifies env a \<and>
           (\<exists>h. holding env user a (parsed env (Balance_Amount a)) st = (Cont h, st1)
              \<and> acc1 = (tbl0 @ [overview_row env user a h],
                         f_add env ts0 (h_sellOutAmount h),
                         f_add env tr0 (h_returnAmount h)))"
    then obtain h where
      h: "holding env user a (parsed env (Balance_Amount a)) st = (Cont h, st1)"
      and acc: "acc1 = (tbl0 @ [overview_row env user a h],
                         f_add env ts0 (h_sellOutAmount h),
                         f_add env tr0 (h_returnAmount h))"
      by blast
    from Cons.IH [OF r [unfolded acc]] obtain hs where
      hs: "list_all2 (\<lambda>a h. \<exists>s s'. holding env user a (parsed env (Balance_Amount a)) s = (Cont h, s'))
             (filter (qualifies env) accts) hs"
        "tbl = (tbl0 @ [overview_row env user a h])
                 @ map2 (overview_row env user) (filter (qualifies env) accts) hs"
        "ts = foldl (f_add env) (f_add env ts0 (h_sellOutAmount h)) (map h_sellOutAmount hs)"
        "tr = foldl (f_add env) (f_add env tr0 (h_returnAmount h)) (map h_returnAmount hs)"
      by blast
    from q h hs show ?thesis
      by (intro exI [of _ "h # hs"]) auto
  next
    assume n: "nonpositive env a \<and> acc1 = (tbl0, ts0, tr0) \<and> st1 = st"
    then have "\<not> qualifies env a" by (simp add: nonpositive_def qualifies_def)
    with n Cons.IH [of tbl0 ts0 tr0 st] r show ?thesis by simp
  qed
qed

text \<open>
  Claim C4: when the loop of Overview mode runs to its end, there is one record of local
  variables per account that passes the positive-balance filter, in the order of the
  account list, each computed by the loop body for that account, with
  \<open>sellOutAmount = amt * sellAmt\<close> (the parsed balance times the parsed sell quote) and
  \<open>returnAmount = sellOutAmount - invested\<close>; the table holds their rows, and the two
  totals are the sums of \<open>sellOutAmount\<close> and of \<open>returnAmount\<close> over exactly these
  records.
\<close>

theorem overview_totals:
  assumes "for_range (overview_body env user) accts ([], f_zero env, f_zero env) st
             = (Cont (tbl, totalSellOutAmount, totalReturnAmount), st')"
  shows "\<exists>hs. list_all2
                 (\<lambda>a h. (\<exists>s s'. holding env user a (parsed env (Balance_Amount a)) s = (Cont h, s'))
                       \<and> h_amt h = parsed env (Balance_Amount a)
                       \<and> h_sellAmt h = parsed env (Amount (h_sellPrice h))
                       \<and> h_sellOutAmount h = f_mul env (h_amt h) (h_sellAmt h)
                       \<and> h_returnAmount h = f_sub env (h_sellOutAmount h) (h_invested h))
                 (filter (qualifies env) accts) hs
            \<and> tbl = map2 (overview_row env user) (filter (qualifies env) accts) hs
            \<and> totalSellOutAmount = float_sum env (map h_sellOutAmount hs)
            \<and> totalReturnAmount = float_sum env (map h_returnAmount hs)"
proof -
  from overview_loop_Cont [OF assms] obtain hs where
    hs: "list_all2 (\<lambda>a h. \<exists>s s'. holding env user a (parsed env (Balance_Amount a)) s = (Cont h, s'))
           (filter (qualifies env) accts) hs"
    and rest: "tbl = [] @ map2 (overview_row env user) (filter (qualifies env) accts) hs"
      "totalSellOutAmount = foldl (f_add env) (f_zero env) (map h_sellOutAmount hs)"
      "totalReturnAmount = foldl (f_add env) (f_zero env) (map h_returnAmount hs)"
    by blast
  have "list_all2
          (\<lambda>a h. (\<exists>s s'. holding env user a (parsed env (Balance_Amount a)) s = (Cont h, s'))
                \<and> h_amt h = parsed env (Balance_Amount a)
                \<and> h_sellAmt h = parsed env (Amount (h_sellPrice h))
                \<and> h_sellOutAmount h = f_mul env (h_amt h) (h_sellAmt h)
                \<and> h_returnAmount h = f_sub env (h_sellOutAmount h) (h_invested h))
          (filter (qualifies env) accts) hs"
    using hs by (rule list_all2_mono) (auto dest: holding_Cont)
  with rest show ?thesis by (auto simp: float_sum_def)
qed

section \<open>Responses other than 200\<close>

lemma clean_refl [simp]: "clean st st"
  by (simp add: clean_def)

lemma extends_refl [simp]: "extends st st"
  by (simp add: extends_def)




lemma clean_stderr [simp]: "clean st (st'\<lparr>stderr := e\<rparr>) = clean st st'"
  by (simp add: clean_def)

lemma extends_stderr [simp]: "extends st (st'\<lparr>stderr := e\<rparr>) = extends st st'"
  by (simp add: extends_def)

lemma report_stderr [simp]: "report (st\<lparr>stderr := e\<rparr>) = report st"
  by (simp add: report_def)















lemma guarded_aborting:
  assumes "guarded m"
  shows "aborting m"
  unfolding aborting_def
proof
  fix st
  from assms have "case m st of
      (Cont x, st') \<Rightarrow> clean st st' \<and> report st' = report st
    | (Exit c, st') \<Rightarrow> c = 1 \<and> extends st st' \<and> report st' = report st"
    by (simp add: guarded_def)
  then show "case m st of
      (Cont x, st') \<Rightarrow> clean st st'
    | (Exit c, st') \<Rightarrow> c = 1 \<and> extends st st' \<and> report st' = report st"
    by (auto split: prod.splits step.splits)
qed

























lemmas mock_defs = mock_def mock_Do_def decode_def mock_ParseFloat_def mock_routes_def
  mock_user_def btc_def eth_def atom_def quote_def tx_def start_def atom_history_def

lemmas gateway_defs = createRequest_def NewRequest_def appendHeaders_def createSignature_def
  Now_Unix_def APIKeyClient_def apiEndpointBase_def bad_status_def cbAPIVersion_def

lemmas client_defs = GetUserProfile_def GetAccount_def GetPrice_def GetTransactionHistory_def
  User_zero_def Account_zero_def Price_zero_def Transaction_zero_def

lemmas cmd_defs = getCoinbaseOverview_def overview_report_def overview_body_def holding_def
  transaction_body_def overview_row_def overview_header_def
  getCoinbaseAccounts_def accounts_report_def accounts_body_def
  Buy_def Sell_def Spot_def InflationReward_def

section \<open>Runs on the mock exchange\<close>

text \<open>
  Claim C1 (the timestamp signed is the timestamp sent): \<^verbatim>\<open>createSignature\<close> and
  \<^verbatim>\<open>appendHeaders\<close> each read the clock. On the mock exchange, whose clock reads
  1700000000 and then 1700000001, the request for \<^verbatim>\<open>user\<close> is signed over the first
  value and carries the second in \<^verbatim>\<open>CB-ACCESS-TIMESTAMP\<close>.
\<close>

theorem timestamp_read_twice:
  "map (\<lambda>(req, answer). Header req)
     (sent (snd (createRequest (mock mock_routes) ''user'' (APIKeyClient (mock mock_routes) start))))
   = [[(''CB-ACCESS-KEY'', ''key''),
       (''CB-ACCESS-SIGN'',
          EncodeToString (HMAC_SHA256 (bytes_of ''secret'') (bytes_of ''1700000000GET/v2/user''))),
       (''CB-ACCESS-TIMESTAMP'', ''1700000001''),
       (''CB-VERSION'', ''2017-08-31''),
       (''Content-Type'', ''application/json'')]]"
  by (simp add: mock_defs gateway_defs Let_def hmac_refines Sprint_int_def decimal.simps digits10_def)

text \<open>
  Claim C2 (a failed fetch returns a non-nil error): on the mock exchange the quote for
  \<^verbatim>\<open>DOGE-USD\<close> is answered 404 and \<^verbatim>\<open>createRequest\<close> returns that error, yet \<^verbatim>\<open>GetPrice\<close>
  returns the zero \<^verbatim>\<open>Price\<close> and \<^verbatim>\<open>nil\<close>; the history of account \<^verbatim>\<open>a2\<close> is answered 200
  with a body that does not decode, yet \<^verbatim>\<open>GetTransactionHistory\<close> returns the zero
  \<^verbatim>\<open>Transaction\<close> and \<^verbatim>\<open>nil\<close>.
\<close>

theorem failures_returned_as_nil:
  "fst (createRequest (mock mock_routes) ''prices/DOGE-USD/spot'' start)
     = ([], Some (Error (''bad HTTP status return code: 404 Not Found'' @ [CHR 0x0A] @ ''no such route'')))
   \<and> fst (GetPrice (mock mock_routes) ''DOGE-USD'' ''spot'' start) = (Price_zero, None)
   \<and> fst (createRequest (mock mock_routes) ''accounts/a2/transactions'' start) = (''not json'', None)
   \<and> Unmarshal_Transaction (mock mock_routes) ''not json''
       = Inl (Error ''invalid character in JSON input'')
   \<and> fst (GetTransactionHistory (mock mock_routes) ''a2'' start) = (Transaction_zero, None)"
  by (simp add: mock_defs gateway_defs client_defs Let_def)

text \<open>
  Claim C8 (Accounts mode launches one concurrent unit of work per account):
  \<^verbatim>\<open>getCoinbaseAccounts\<close> has no \<^verbatim>\<open>go\<close> statement and never waits on its wait group. On
  the mock exchange it fetches the quotes one after the other in the order of the
  account list, reading the clock twice per request, and prints the rows in that order.
\<close>

theorem accounts_mode_sequential:
  "(case getCoinbaseAccounts (mock mock_routes) start of
      (r, st) \<Rightarrow> (r, map (\<lambda>(req, answer). URL req) (sent st), clock_reads st, stdout st))
   = (Cont (),
      [''https://api.coinbase.com/v2/user'',
       ''https://api.coinbase.com/v2/accounts'',
       ''https://api.coinbase.com/v2/prices/BTC-USD/spot'',
       ''https://api.coinbase.com/v2/prices/ATOM-USD/spot''],
      8,
      [Table [''Wallet'', ''Balance'', ''Native'']
         [[''BTC Wallet'', ''1.0'', ''30000.00 USD''], [''ATOM Wallet'', ''2'', ''22.00 USD'']]])"
  by (simp add: mock_defs gateway_defs client_defs cmd_defs Let_def Sprint_int_def decimal.simps digits10_def)

text \<open>
  Overview mode on the mock exchange: the requests in order, and what is printed. The
  first row and its share of the totals are the end-to-end scenario of Section 8 of the
  specification (sell-out value 29900.00 USD, invested 25000.00 USD, return 4900.00 USD).
\<close>

lemma overview_end_to_end:
  "(case getCoinbaseOverview (mock mock_routes) start of
      (r, st) \<Rightarrow> (r, map (\<lambda>(req, answer). URL req) (sent st), stdout st, stderr st))
   = (Cont (),
      [''https://api.coinbase.com/v2/user'',
       ''https://api.coinbase.com/v2/accounts'',
       ''https://api.coinbase.com/v2/prices/BTC-USD/spot'',
       ''https://api.coinbase.com/v2/prices/BTC-USD/buy'',
       ''https://api.coinbase.com/v2/prices/BTC-USD/sell'',
       ''https://api.coinbase.com/v2/accounts/a1/transactions'',
       ''https://api.coinbase.com/v2/prices/ATOM-USD/spot'',
       ''https://api.coinbase.com/v2/prices/ATOM-USD/buy'',
       ''https://api.coinbase.com/v2/prices/ATOM-USD/sell'',
       ''https://api.coinbase.com/v2/accounts/a3/transactions''],
      [Println_User mock_user,
       Table overview_header
         [[''BTC Wallet'', ''1.000000'', ''BTC'', ''30000.00 USD'', ''30100.00 USD'', ''29900.00 USD'',
           ''29900.00 USD'', ''25000.00 USD'', ''0.000000 BTC'', ''4900.00 USD''],
          [''ATOM Wallet'', ''2.000000'', ''ATOM'', ''11.00 USD'', ''12.00 USD'', ''10.00 USD'',
           ''20.00 USD'', ''15.00 USD'', ''1.000000 ATOM'', ''5.00 USD'']],
       Line ''Total Sell Out Amount: 29920.00 USD'',
       Line ''Total Return Amount: 4905.00 USD''],
      [])"
  by (simp add: mock_defs gateway_defs client_defs cmd_defs Let_def Sprint_int_def decimal.simps digits10_def)

section \<open>A response other than 200 aborts the run\<close>








theorem createSignature_hex_hmac_sha256_witness:
  "fst (createSignature (mock mock_routes)
          \<lparr>Method = ''GET'', URL = ''https://api.coinbase.com/v2/user'', Path = ''/v2/user'',
            Header = []\<rparr>
          (start\<lparr>cbAPISecret := ''secret''\<rparr>))
     = EncodeToString (HMAC_SHA256 (bytes_of ''secret'') (bytes_of ''1700000000GET/v2/user''))
   \<and> fst (createSignature (mock mock_outage)
          \<lparr>Method = ''GET'', URL = ''http://localhost:8080/v2/user'', Path = ''/v2/user'',
            Header = [(''Accept'', ''*/*'')]\<rparr>
          (start\<lparr>cbAPISecret := ''secret'', stdout := [Line ''again'']\<rparr>))
     = fst (createSignature (mock mock_routes)
          \<lparr>Method = ''GET'', URL = ''https://api.coinbase.com/v2/user'', Path = ''/v2/user'',
            Header = []\<rparr>
          (start\<lparr>cbAPISecret := ''secret''\<rparr>))"
proof -
  let ?r = "\<lparr>Method = ''GET'', URL = ''https://api.coinbase.com/v2/user'', Path = ''/v2/user'',
             Header = []\<rparr>"
  let ?r' = "\<lparr>Method = ''GET'', URL = ''http://localhost:8080/v2/user'', Path = ''/v2/user'',
              Header = [(''Accept'', ''*/*'')]\<rparr>"
  let ?st = "start\<lparr>cbAPISecret := ''secret''\<rparr>"
  let ?st' = "start\<lparr>cbAPISecret := ''secret'', stdout := [Line ''again'']\<rparr>"
  note sig = createSignature_hex_hmac_sha256 [of "mock mock_routes" ?r ?st]
  have msg: "Sprint_int (unix_now (mock mock_routes) (clock_reads ?st)) @ Method ?r @ Path ?r
               = ''1700000000GET/v2/user''"
    by (simp add: mock_def start_def Sprint_int_def decimal.simps digits10_def)
  have key: "cbAPISecret ?st = ''secret''"
    by (simp add: start_def)
  from sig have "fst (createSignature (mock mock_routes) ?r ?st)
      = EncodeToString (HMAC_SHA256 (bytes_of (cbAPISecret ?st))
          (bytes_of (Sprint_int (unix_now (mock mock_routes) (clock_reads ?st))
                     @ Method ?r @ Path ?r)))"
    by (rule conjunct1)
  then have 1: "fst (createSignature (mock mock_routes) ?r ?st)
      = EncodeToString (HMAC_SHA256 (bytes_of ''secret'') (bytes_of ''1700000000GET/v2/user''))"
    by (simp only: msg key)
  have same: "cbAPISecret ?st' = cbAPISecret ?st \<and> Method ?r' = Method ?r \<and> Path ?r' = Path ?r
       \<and> unix_now (mock mock_outage) (clock_reads ?st') = unix_now (mock mock_routes) (clock_reads ?st)"
    by (simp add: mock_def start_def)
  from sig have "\<forall>env' r' st'.
         cbAPISecret st' = cbAPISecret ?st \<and> Method r' = Method ?r \<and> Path r' = Path ?r
         \<and> unix_now env' (clock_reads st') = unix_now (mock mock_routes) (clock_reads ?st)
         \<longrightarrow> fst (createSignature env' r' st') = fst (createSignature (mock mock_routes) ?r ?st)"
    by (rule conjunct2)
  with same have 2: "fst (createSignature (mock mock_outage) ?r' ?st')
           = fst (createSignature (mock mock_routes) ?r ?st)"
    by blast
  from 1 2 show ?thesis by (rule conjI)
qed

theorem invested_and_rewards_witness:
  "for_range (transaction_body (mock mock_routes)) atom_history (0, 0) start = (Cont (15, 1), start)"
  using invested_and_rewards [of atom_history "mock mock_routes" start]
  by (simp add: atom_history_def tx_def parses_def parsed_def float_sum_def mock_def
                mock_ParseFloat_def)

theorem nonpositive_account_excluded_witness:
  "nonpositive (mock mock_routes) eth
   \<and> overview_report (mock mock_routes) mock_user [btc, eth, atom] start
       = overview_report (mock mock_routes) mock_user [btc, atom] start
   \<and> accounts_report (mock mock_routes) mock_user [btc, eth, atom] start
       = accounts_report (mock mock_routes) mock_user [btc, atom] start"
proof -
  have n: "nonpositive (mock mock_routes) eth"
    by (simp add: nonpositive_def parses_def parsed_def mock_def mock_ParseFloat_def eth_def)
  from nonpositive_account_excluded [OF n, of mock_user "[btc]" "[atom]" start] n
  show ?thesis by simp
qed

section \<open>The stringer of accounts\<close>

lemma String_rows_first_error:
  "a \<in> set accts \<Longrightarrow> snd (ParseFloat env (Balance_Amount a)) \<noteq> None
     \<Longrightarrow> \<exists>b err. b \<in> set accts \<and> snd (ParseFloat env (Balance_Amount b)) = Some err
                 \<and> String_rows env accts tbl = Inl err"
proof (induction accts arbitrary: tbl)
  case Nil
  then show ?case by simp
next
  case (Cons x accts)
  obtain amount e where p: "ParseFloat env (Balance_Amount x) = (amount, e)"
    by (cases "ParseFloat env (Balance_Amount x)")
  show ?case
  proof (cases e)
    case None
    with p Cons.prems have "a \<in> set accts" by auto
    from Cons.IH [OF this Cons.prems(2)] obtain b err where
      "b \<in> set accts" "snd (ParseFloat env (Balance_Amount b)) = Some err"
      "String_rows env accts
         (if f_pos env amount
          then tbl @ [[Name x, Sprintf_f env amount, Balance_Currency x]] else tbl) = Inl err"
      by blast
    with p None show ?thesis
      by (intro exI [of _ b] exI [of _ err]) simp
  next
    case (Some err)
    with p show ?thesis
      by (intro exI [of _ x] exI [of _ err]) simp
  qed
qed

text \<open>
  Claim C10: when the balance of any account of the list fails to parse, the stringer
  of \<^verbatim>\<open>Account\<close> panics, with the error of an account of the list.
\<close>

theorem Account_String_panics:
  assumes "a \<in> set (Account_Data acc)" and "snd (ParseFloat env (Balance_Amount a)) \<noteq> None"
  shows "\<exists>b err. b \<in> set (Account_Data acc) \<and> snd (ParseFloat env (Balance_Amount b)) = Some err
               \<and> Account_String env acc = Panic err"
  using String_rows_first_error [OF assms, of "[]"] by (auto simp: Account_String_def)

theorem Account_String_panics_witness:
  "Account_String (mock mock_routes) \<lparr>Account_Data = [btc, broken, atom]\<rparr>
     = Panic (Error ''strconv.ParseFloat: parsing abc: invalid syntax'')"
proof -
  have "broken \<in> set (Account_Data \<lparr>Account_Data = [btc, broken, atom]\<rparr>)" by simp
  moreover have "snd (ParseFloat (mock mock_routes) (Balance_Amount broken)) \<noteq> None"
    by (simp add: mock_def mock_ParseFloat_def broken_def)
  ultimately obtain b err where
    "b \<in> set [btc, broken, atom]"
    "snd (ParseFloat (mock mock_routes) (Balance_Amount b)) = Some err"
    "Account_String (mock mock_routes) \<lparr>Account_Data = [btc, broken, atom]\<rparr> = Panic err"
    using Account_String_panics [of broken "\<lparr>Account_Data = [btc, broken, atom]\<rparr>" "mock mock_routes"]
    by auto
  then show ?thesis
    by (auto simp: mock_def mock_ParseFloat_def broken_def btc_def atom_def)
qed

section \<open>The end-to-end scenario\<close>

lemma holding_btc:
  "holding (mock mock_routes) mock_user btc 1 s = (Cont h, s')
     \<Longrightarrow> h_sellOutAmount h = 29900 \<and> h_returnAmount h = 4900 \<and> h_invested h = 25000"
  by (simp add: mock_defs gateway_defs client_defs cmd_defs Let_def split_beta) auto

lemma holding_atom:
  "holding (mock mock_routes) mock_user atom 2 s = (Cont h, s')
     \<Longrightarrow> h_sellOutAmount h = 20 \<and> h_returnAmount h = 5 \<and> h_invested h = 15"
  by (simp add: mock_defs gateway_defs client_defs cmd_defs Let_def split_beta) auto

theorem overview_totals_witness:
  "\<exists>tbl st'.
     for_range (overview_body (mock mock_routes) mock_user) [btc, eth, atom]
       ([], f_zero (mock mock_routes), f_zero (mock mock_routes))
       (APIKeyClient (mock mock_routes) start) = (Cont (tbl, 29920, 4905), st')
   \<and> (\<exists>hs. map h_sellOutAmount hs = [29900, 20] \<and> map h_returnAmount hs = [4900, 5]
          \<and> map h_invested hs = [25000, 15]
          \<and> tbl = map2 (overview_row (mock mock_routes) mock_user) [btc, atom] hs)"
proof -
  let ?env = "mock mock_routes"
  have q: "filter (qualifies ?env) [btc, eth, atom] = [btc, atom]"
    by (simp add: qualifies_def parses_def parsed_def mock_defs)
  have "\<exists>tbl st'. for_range (overview_body ?env mock_user) [btc, eth, atom]
       ([], f_zero ?env, f_zero ?env) (APIKeyClient ?env start) = (Cont (tbl, 29920, 4905), st')"
    by (simp add: mock_defs gateway_defs client_defs cmd_defs Let_def)
  then obtain tbl st' where
    run: "for_range (overview_body ?env mock_user) [btc, eth, atom]
       ([], f_zero ?env, f_zero ?env) (APIKeyClient ?env start) = (Cont (tbl, 29920, 4905), st')"
    by blast
  from overview_totals [OF run] obtain hs where
    hs: "list_all2
                 (\<lambda>a h. (\<exists>s s'. holding ?env mock_user a (parsed ?env (Balance_Amount a)) s = (Cont h, s'))
                       \<and> h_amt h = parsed ?env (Balance_Amount a)
                       \<and> h_sellAmt h = parsed ?env (Amount (h_sellPrice h))
                       \<and> h_sellOutAmount h = f_mul ?env (h_amt h) (h_sellAmt h)
                       \<and> h_returnAmount h = f_sub ?env (h_sellOutAmount h) (h_invested h))
                 [btc, atom] hs"
    and tbl: "tbl = map2 (overview_row ?env mock_user) [btc, atom] hs"
    and ts: "29920 = float_sum ?env (map h_sellOutAmount hs)"
    and tr: "4905 = float_sum ?env (map h_returnAmount hs)"
    unfolding q by blast
  from hs obtain h1 h2 where
    hs2: "hs = [h1, h2]"
    and h1: "\<exists>s s'. holding ?env mock_user btc (parsed ?env (Balance_Amount btc)) s = (Cont h1, s')"
    and h2: "\<exists>s s'. holding ?env mock_user atom (parsed ?env (Balance_Amount atom)) s = (Cont h2, s')"
    by (auto simp: list_all2_Cons1)
  have pb: "parsed ?env (Balance_Amount btc) = 1" and pa: "parsed ?env (Balance_Amount atom) = 2"
    by (simp_all add: parsed_def mock_defs)
  from h1 obtain s1 s1' where "holding ?env mock_user btc 1 s1 = (Cont h1, s1')"
    unfolding pb by blast
  then have v1: "h_sellOutAmount h1 = 29900 \<and> h_returnAmount h1 = 4900 \<and> h_invested h1 = 25000"
    by (rule holding_btc)
  from h2 obtain s2 s2' where "holding ?env mock_user atom 2 s2 = (Cont h2, s2')"
    unfolding pa by blast
  then have v2: "h_sellOutAmount h2 = 20 \<and> h_returnAmount h2 = 5 \<and> h_invested h2 = 15"
    by (rule holding_atom)
  have "map h_sellOutAmount hs = [29900, 20] \<and> map h_returnAmount hs = [4900, 5]
          \<and> map h_invested hs = [25000, 15]
          \<and> tbl = map2 (overview_row ?env mock_user) [btc, atom] hs"
    using hs2 v1 v2 tbl by simp
  then have "\<exists>hs. map h_sellOutAmount hs = [29900, 20] \<and> map h_returnAmount hs = [4900, 5]
          \<and> map h_invested hs = [25000, 15]
          \<and> tbl = map2 (overview_row ?env mock_user) [btc, atom] hs"
    by (rule exI)
  with run have "for_range (overview_body ?env mock_user) [btc, eth, atom]
       ([], f_zero ?env, f_zero ?env) (APIKeyClient ?env start) = (Cont (tbl, 29920, 4905), st')
     \<and> (\<exists>hs. map h_sellOutAmount hs = [29900, 20] \<and> map h_returnAmount hs = [4900, 5]
          \<and> map h_invested hs = [25000, 15]
          \<and> tbl = map2 (overview_row ?env mock_user) [btc, atom] hs)"
    by (rule conjI)
  then have "\<exists>st'. for_range (overview_body ?env mock_user) [btc, eth, atom]
       ([], f_zero ?env, f_zero ?env) (APIKeyClient ?env start) = (Cont (tbl, 29920, 4905), st')
     \<and> (\<exists>hs. map h_sellOutAmount hs = [29900, 20] \<and> map h_returnAmount hs = [4900, 5]
          \<and> map h_invested hs = [25000, 15]
          \<and> tbl = map2 (overview_row ?env mock_user) [btc, atom] hs)"
    by (rule exI)
  then show ?thesis by (rule exI)
qed

end
